theory Spec2Isabelle
  imports Main
begin

section \<open>Data model of app/models.py\<close>

text \<open>
  Every class of \<^verbatim>\<open>app/models.py\<close> is a table row. A column declared without
  \<^verbatim>\<open>nullable=False\<close> may hold Python's \<^verbatim>\<open>None\<close>, so it is an option; primary keys
  and the columns declared \<^verbatim>\<open>nullable=False\<close> are plain values. The field names carry
  the class initial, since \<^verbatim>\<open>id\<close> occurs in every class.
\<close>

datatype py_error = ValueError string | AttributeError string | TypeError string

type_synonym datetime = int

record user =
  u_id :: int
  u_username :: "string option"
  u_email :: "string option"
  u_password_hash :: "string option"

record room =
  r_id :: int
  r_name :: string

record player =
  p_id :: int
  p_user_id :: int
  p_room_id :: int
  p_is_host :: "bool option"
  p_character :: "string option"
  p_seat :: "int option"
  p_is_dead :: "bool option"
  p_capable_for_vote :: "bool option"

text \<open>
  \<^verbatim>\<open>Game.current_round\<close> is a string column, but \<^verbatim>\<open>end()\<close> assigns the integer -1 to
  the attribute, so the attribute holds \<^verbatim>\<open>None\<close>, a string or an integer.
\<close>

datatype pyval = PyNone | PyStr string | PyInt int

record game =
  g_id :: int
  g_room_id :: int
  g_template :: string
  g_current_round :: pyval
  g_is_active :: "bool option"
  g_start_time :: "datetime option"
  g_finish_time :: "datetime option"

record vote =
  v_id :: int
  v_game_id :: "int option"
  v_player_id :: "int option"
  v_vote_for :: "int option"
  v_round :: "string option"

text \<open>
  The relationships (\<^verbatim>\<open>Room.players\<close>, \<^verbatim>\<open>Player.votes\<close>, \<^verbatim>\<open>User.role\<close>) and
  \<^verbatim>\<open>Player.query\<close> are queries on the tables, so the functions that use them take the
  tables, each a list of rows in the order the store returns them.
\<close>

record db =
  tbl_player :: "player list"
  tbl_vote :: "vote list"

text \<open>The dictionary \<^verbatim>\<open>{'vote_from': ..., 'vote_for': ...}\<close> of \<^verbatim>\<open>view_vote_results\<close>.\<close>

record vote_result =
  vr_vote_from :: "int option"
  vr_vote_for :: "int option"

section \<open>Python truthiness and query helpers\<close>

text \<open>\<^verbatim>\<open>if x:\<close> on a nullable boolean: only \<^verbatim>\<open>True\<close> is truthy.\<close>

definition truthy_bool :: "bool option \<Rightarrow> bool" where
  "truthy_bool b = (b = Some True)"

text \<open>\<^verbatim>\<open>if x:\<close> on a nullable integer: \<^verbatim>\<open>None\<close> and 0 are falsy.\<close>

definition truthy_int :: "int option \<Rightarrow> bool" where
  "truthy_int n = (case n of None \<Rightarrow> False | Some k \<Rightarrow> k \<noteq> 0)"

fun truthy :: "pyval \<Rightarrow> bool" where
  "truthy PyNone = False"
| "truthy (PyStr s) = (s \<noteq> [])"
| "truthy (PyInt n) = (n \<noteq> 0)"

text \<open>\<^verbatim>\<open>query.first()\<close>: the first row, or \<^verbatim>\<open>None\<close>.\<close>

definition first_row :: "'a list \<Rightarrow> 'a option" where
  "first_row xs = (case xs of [] \<Rightarrow> None | x # _ \<Rightarrow> Some x)"

section \<open>User\<close>

text \<open>\<^verbatim>\<open>User.role\<close>: the players whose \<^verbatim>\<open>user_id\<close> is this user's id.\<close>

definition user_role :: "db \<Rightarrow> user \<Rightarrow> player list" where
  "user_role d u = filter (\<lambda>p. p_user_id p = u_id u) (tbl_player d)"

text \<open>
  \<^verbatim>\<open>User.is_host\<close>: \<^verbatim>\<open>self.role.first().is_host == True\<close>; reading \<^verbatim>\<open>is_host\<close> of
  \<^verbatim>\<open>None\<close> raises AttributeError.
\<close>

definition user_is_host :: "db \<Rightarrow> user \<Rightarrow> py_error + bool" where
  "user_is_host d u =
     (case first_row (user_role d u) of
        None \<Rightarrow> Inl (AttributeError ''is_host'')
      | Some p \<Rightarrow> Inr (p_is_host p = Some True))"

section \<open>Room\<close>

text \<open>\<^verbatim>\<open>Room.players\<close>: the players whose \<^verbatim>\<open>room_id\<close> is this room's id.\<close>

definition players :: "db \<Rightarrow> room \<Rightarrow> player list" where
  "players d r = filter (\<lambda>p. p_room_id p = r_id r) (tbl_player d)"

text \<open>
  \<^verbatim>\<open>Room.host\<close>: the loop returns at the first player with a truthy \<^verbatim>\<open>is_host\<close>; its
  \<^verbatim>\<open>else\<close> clause, reached when the loop ends without returning, raises ValueError.
\<close>

fun host_loop :: "player list \<Rightarrow> py_error + player" where
  "host_loop [] = Inl (ValueError ''No host find'')"
| "host_loop (p # ps) = (if truthy_bool (p_is_host p) then Inr p else host_loop ps)"

definition host :: "db \<Rightarrow> room \<Rightarrow> py_error + player" where
  "host d r = host_loop (players d r)"

text \<open>\<^verbatim>\<open>Room.normal_players\<close>: appends every player whose \<^verbatim>\<open>is_host\<close> is not truthy.\<close>

definition normal_players :: "db \<Rightarrow> room \<Rightarrow> player list" where
  "normal_players d r = filter (\<lambda>p. \<not> truthy_bool (p_is_host p)) (players d r)"

text \<open>
  \<^verbatim>\<open>Room.available_seats\<close>: \<^verbatim>\<open>seats = set(range(1, 13))\<close>, then for every normal player
  with a truthy seat \<^verbatim>\<open>seats -= set([p.seat])\<close>, and \<^verbatim>\<open>list(seats)\<close> is returned. The
  Python set is kept as a list without duplicates, and removing an element is
  \<^const>\<open>removeAll\<close>; the order of \<^verbatim>\<open>list(seats)\<close> is the interpreter's and nothing
  below depends on it.
\<close>

fun available_seats_loop :: "player list \<Rightarrow> int list \<Rightarrow> int list" where
  "available_seats_loop [] seats = seats"
| "available_seats_loop (p # ps) seats =
     (case p_seat p of
        None \<Rightarrow> available_seats_loop ps seats
      | Some s \<Rightarrow>
          if s \<noteq> 0 then available_seats_loop ps (removeAll s seats)
          else available_seats_loop ps seats)"

definition available_seats :: "db \<Rightarrow> room \<Rightarrow> int list" where
  "available_seats d r = available_seats_loop (normal_players d r) [1..12]"

text \<open>\<^verbatim>\<open>Room.seated_players\<close>: the players that are not host and have a truthy seat.\<close>

definition seated_players :: "db \<Rightarrow> room \<Rightarrow> player list" where
  "seated_players d r =
     filter (\<lambda>p. \<not> truthy_bool (p_is_host p) \<and> truthy_int (p_seat p)) (players d r)"

text \<open>The seats of the seated players, the occupied seats of a room.\<close>

definition occupied_seats :: "db \<Rightarrow> room \<Rightarrow> int list" where
  "occupied_seats d r = List.map_filter p_seat (seated_players d r)"

text \<open>
  The names class \<^verbatim>\<open>Room\<close> defines: its columns, relationships, properties and
  methods. \<^verbatim>\<open>seats\<close> is not one of them.
\<close>

definition room_attributes :: "string list" where
  "room_attributes =
     [''id'', ''name'', ''game'', ''players'', ''host'', ''normal_players'',
      ''available_seats'', ''seated_players'', ''is_full'', ''template'', ''survivals'',
      ''allow_votes'', ''disable_votes'', ''set_round'', ''view_vote_results'']"

text \<open>
  \<^verbatim>\<open>Room.is_full\<close>: \<^verbatim>\<open>if len(self.seats == 0): return True else: return False\<close>.
  Reading an attribute the class does not define raises AttributeError. Were it
  defined, \<^verbatim>\<open>self.seats == 0\<close> would be a boolean, and \<^verbatim>\<open>len\<close> of a boolean raises
  TypeError: no path reaches either \<^verbatim>\<open>return\<close>.
\<close>

definition is_full :: "db \<Rightarrow> room \<Rightarrow> py_error + bool" where
  "is_full d r =
     (if ''seats'' \<in> set room_attributes
      then Inl (TypeError ''object of type bool has no len()'')
      else Inl (AttributeError ''seats''))"

text \<open>\<^verbatim>\<open>Player.votes\<close>: the votes whose \<^verbatim>\<open>player_id\<close> is this player's id.\<close>

definition player_votes :: "db \<Rightarrow> player \<Rightarrow> vote list" where
  "player_votes d p = filter (\<lambda>v. v_player_id v = Some (p_id p)) (tbl_vote d)"

text \<open>\<^verbatim>\<open>p.votes.filter_by(round=round_name)\<close>: this player's votes of that round.\<close>

definition votes_of_round :: "db \<Rightarrow> player \<Rightarrow> string \<Rightarrow> vote list" where
  "votes_of_round d p round_name =
     filter (\<lambda>v. v_round v = Some round_name) (player_votes d p)"

text \<open>
  \<^verbatim>\<open>Vote.vote_from\<close>: \<^verbatim>\<open>Player.query.filter_by(id=self.player_id).first().seat\<close>;
  reading \<^verbatim>\<open>seat\<close> of \<^verbatim>\<open>None\<close> raises AttributeError.
\<close>

definition vote_from :: "db \<Rightarrow> vote \<Rightarrow> py_error + int option" where
  "vote_from d v =
     (case first_row (filter (\<lambda>p. Some (p_id p) = v_player_id v) (tbl_player d)) of
        None \<Rightarrow> Inl (AttributeError ''seat'')
      | Some p \<Rightarrow> Inr (p_seat p))"

text \<open>
  \<^verbatim>\<open>Room.view_vote_results\<close>: for every seated player the first vote of that round
  is fetched, and \<^verbatim>\<open>vote.vote_from\<close> is read first: on \<^verbatim>\<open>None\<close> it raises
  AttributeError. The accumulator is the list \<^verbatim>\<open>results\<close>.
\<close>

fun view_vote_results_loop ::
  "db \<Rightarrow> string \<Rightarrow> player list \<Rightarrow> vote_result list \<Rightarrow> py_error + vote_result list" where
  "view_vote_results_loop d round_name [] results = Inr results"
| "view_vote_results_loop d round_name (p # ps) results =
     (case first_row (votes_of_round d p round_name) of
        None \<Rightarrow> Inl (AttributeError ''vote_from'')
      | Some v \<Rightarrow>
          (case vote_from d v of
             Inl e \<Rightarrow> Inl e
           | Inr s \<Rightarrow>
               view_vote_results_loop d round_name ps
                 (results @ [\<lparr>vr_vote_from = s, vr_vote_for = v_vote_for v\<rparr>])))"

definition view_vote_results :: "db \<Rightarrow> room \<Rightarrow> string \<Rightarrow> py_error + vote_result list" where
  "view_vote_results d r round_name =
     view_vote_results_loop d round_name (seated_players d r) []"

section \<open>Game\<close>

text \<open>
  \<^verbatim>\<open>Game.end\<close>; the reading of the clock, \<^verbatim>\<open>datetime.now()\<close>, is the argument
  \<open>now\<close>.
\<close>

definition game_end :: "datetime \<Rightarrow> 'a game_scheme \<Rightarrow> 'a game_scheme" where
  "game_end now g =
     g\<lparr>g_finish_time := Some now, g_is_active := Some False, g_current_round := PyInt (- 1)\<rparr>"

text \<open>The placeholder string of \<^verbatim>\<open>Game.status\<close>, six Chinese characters, as UTF-8 bytes.\<close>

definition status_placeholder :: string where
  "status_placeholder =
     map char_of
       [0xE7, 0xAD, 0x89, 0xE5, 0xBE, 0x85, 0xE4, 0xB8, 0x8A,
        0xE5, 0xB8, 0x9D, 0xE6, 0x8C, 0x87, 0xE4, 0xBB, 0xA4 :: nat]"

definition status :: "'a game_scheme \<Rightarrow> pyval" where
  "status g =
     (if truthy (g_current_round g) then g_current_round g else PyStr status_placeholder)"

section \<open>Vote\<close>

text \<open>
  \<^verbatim>\<open>Vote.validate\<close>: \<^verbatim>\<open>if self.vote_for <= 0 or self.vote_for >= 13: self.vote_for = 0\<close>.
  Comparing \<^verbatim>\<open>None\<close> with an integer raises TypeError.
\<close>

definition validate :: "'a vote_scheme \<Rightarrow> py_error + 'a vote_scheme" where
  "validate v =
     (case v_vote_for v of
        None \<Rightarrow> Inl (TypeError ''<= not supported between NoneType and int'')
      | Some n \<Rightarrow> if n \<le> 0 \<or> n \<ge> 13 then Inr (v\<lparr>v_vote_for := Some 0\<rparr>) else Inr v)"

text \<open>Running a second call after a first one: an exception of the first one ends the run.\<close>

definition and_then :: "py_error + 'a \<Rightarrow> ('a \<Rightarrow> py_error + 'b) \<Rightarrow> py_error + 'b" where
  "and_then x f = (case x of Inl e \<Rightarrow> Inl e | Inr a \<Rightarrow> f a)"

section \<open>Example data\<close>

text \<open>
  Room 1 has a host and three normal players seated at 1, 3 and 5, each with one vote
  in round1; only the first of them has voted in round2. Room 2 has no host and one
  player whose seat is 13. User 9 has joined no room.
\<close>

definition room1 :: room where
  "room1 = \<lparr>r_id = 1, r_name = ''room1''\<rparr>"

definition room2 :: room where
  "room2 = \<lparr>r_id = 2, r_name = ''room2''\<rparr>"

definition user9 :: user where
  "user9 = \<lparr>u_id = 9, u_username = Some ''nobody'', u_email = None, u_password_hash = None\<rparr>"

definition ex_host :: player where
  "ex_host = \<lparr>p_id = 1, p_user_id = 1, p_room_id = 1, p_is_host = Some True,
               p_character = None, p_seat = None, p_is_dead = Some False,
               p_capable_for_vote = Some False\<rparr>"

definition ex_p2 :: player where
  "ex_p2 = \<lparr>p_id = 2, p_user_id = 2, p_room_id = 1, p_is_host = Some False,
             p_character = None, p_seat = Some 1, p_is_dead = Some False,
             p_capable_for_vote = Some False\<rparr>"

definition ex_p3 :: player where
  "ex_p3 = \<lparr>p_id = 3, p_user_id = 3, p_room_id = 1, p_is_host = None,
             p_character = None, p_seat = Some 3, p_is_dead = Some False,
             p_capable_for_vote = Some False\<rparr>"

definition ex_p4 :: player where
  "ex_p4 = \<lparr>p_id = 4, p_user_id = 4, p_room_id = 1, p_is_host = Some False,
             p_character = None, p_seat = Some 5, p_is_dead = Some True,
             p_capable_for_vote = Some False\<rparr>"

definition ex_p5 :: player where
  "ex_p5 = \<lparr>p_id = 5, p_user_id = 5, p_room_id = 2, p_is_host = Some False,
             p_character = None, p_seat = Some 13, p_is_dead = Some False,
             p_capable_for_vote = Some False\<rparr>"

definition ex_v1 :: vote where
  "ex_v1 = \<lparr>v_id = 1, v_game_id = Some 1, v_player_id = Some 2, v_vote_for = Some 3,
             v_round = Some ''round1''\<rparr>"

definition ex_v2 :: vote where
  "ex_v2 = \<lparr>v_id = 2, v_game_id = Some 1, v_player_id = Some 3, v_vote_for = Some 5,
             v_round = Some ''round1''\<rparr>"

definition ex_v3 :: vote where
  "ex_v3 = \<lparr>v_id = 3, v_game_id = Some 1, v_player_id = Some 4, v_vote_for = Some 0,
             v_round = Some ''round1''\<rparr>"

definition ex_v4 :: vote where
  "ex_v4 = \<lparr>v_id = 4, v_game_id = Some 1, v_player_id = Some 2, v_vote_for = Some 5,
             v_round = Some ''round2''\<rparr>"

definition ex_db :: db where
  "ex_db = \<lparr>tbl_player = [ex_host, ex_p2, ex_p3, ex_p4, ex_p5],
             tbl_vote = [ex_v1, ex_v2, ex_v3, ex_v4]\<rparr>"

text \<open>The vote each seated player of room 1 cast in round1.\<close>

definition ex_choice :: "player \<Rightarrow> vote" where
  "ex_choice p = (if p_id p = 2 then ex_v1 else if p_id p = 3 then ex_v2 else ex_v3)"

definition ex_game :: game where
  "ex_game = \<lparr>g_id = 1, g_room_id = 1, g_template = ''template'', g_current_round = PyNone,
               g_is_active = Some True, g_start_time = Some 1000, g_finish_time = None\<rparr>"

text \<open>A game whose round has been named with the very text of the placeholder.\<close>

definition ex_game_named :: game where
  "ex_game_named = ex_game\<lparr>g_current_round := PyStr status_placeholder\<rparr>"

lemmas ex_defs =
  room1_def room2_def user9_def ex_host_def ex_p2_def ex_p3_def ex_p4_def ex_p5_def
  ex_v1_def ex_v2_def ex_v3_def ex_v4_def ex_db_def ex_choice_def ex_game_def

section \<open>Properties of Game\<close>

text \<open>
  Claim C5. For every game, \<^verbatim>\<open>end()\<close> sets \<^verbatim>\<open>finish_time\<close> to the current time,
  \<^verbatim>\<open>is_active\<close> to false and \<^verbatim>\<open>current_round\<close> to -1, and changes no other field
  of the game.
\<close>

theorem game_end_fields:
  "g_finish_time (game_end now g) = Some now
   \<and> g_is_active (game_end now g) = Some False
   \<and> g_current_round (game_end now g) = PyInt (- 1)
   \<and> g_id (game_end now g) = g_id g
   \<and> g_room_id (game_end now g) = g_room_id g
   \<and> g_template (game_end now g) = g_template g
   \<and> g_start_time (game_end now g) = g_start_time g
   \<and> game.more (game_end now g) = game.more g"
  by (simp add: game_end_def)

section \<open>Properties of Vote\<close>

lemma validate_None:
  "v_vote_for v = None \<Longrightarrow> \<exists>msg. validate v = Inl (TypeError msg)"
  by (simp add: validate_def)

text \<open>
  Claim C6. For every vote whose \<^verbatim>\<open>vote_for\<close> is the integer \<open>n\<close>, \<^verbatim>\<open>validate()\<close> sets
  \<^verbatim>\<open>vote_for\<close> to 0 if \<open>n\<close> is outside the range 1..12 and leaves the vote unchanged
  if \<open>n\<close> is within it; 15 becomes 0 and 7 stays.
\<close>

theorem validate_clamps:
  "v_vote_for v = Some n \<Longrightarrow>
     (n \<notin> {1..12} \<longrightarrow> validate v = Inr (v\<lparr>v_vote_for := Some 0\<rparr>))
     \<and> (n \<in> {1..12} \<longrightarrow> validate v = Inr v)
     \<and> validate (v\<lparr>v_vote_for := Some 15\<rparr>) = Inr (v\<lparr>v_vote_for := Some 0\<rparr>)
     \<and> validate (v\<lparr>v_vote_for := Some 7\<rparr>) = Inr (v\<lparr>v_vote_for := Some 7\<rparr>)"
  by (auto simp add: validate_def)

theorem validate_clamps_witness:
  "validate \<lparr>v_id = 1, v_game_id = Some 1, v_player_id = Some 2,
             v_vote_for = Some 15, v_round = Some ''round1''\<rparr>
     = Inr \<lparr>v_id = 1, v_game_id = Some 1, v_player_id = Some 2,
            v_vote_for = Some 0, v_round = Some ''round1''\<rparr>
   \<and> validate \<lparr>v_id = 1, v_game_id = Some 1, v_player_id = Some 2,
               v_vote_for = Some 7, v_round = Some ''round1''\<rparr>
     = Inr \<lparr>v_id = 1, v_game_id = Some 1, v_player_id = Some 2,
            v_vote_for = Some 7, v_round = Some ''round1''\<rparr>"
  using validate_clamps
    [of "\<lparr>v_id = 1, v_game_id = Some 1, v_player_id = Some 2,
          v_vote_for = Some 15, v_round = Some ''round1''\<rparr>" 15]
    validate_clamps
    [of "\<lparr>v_id = 1, v_game_id = Some 1, v_player_id = Some 2,
          v_vote_for = Some 7, v_round = Some ''round1''\<rparr>" 7]
  by simp

text \<open>
  Claim C7. For every vote, \<^verbatim>\<open>validate()\<close> is idempotent: calling it twice gives the
  result of calling it once, the same vote with the same \<^verbatim>\<open>vote_for\<close>.
\<close>

theorem validate_idempotent:
  "and_then (validate v) validate = validate v"
  by (auto simp add: and_then_def validate_def split: option.splits)

section \<open>Properties of Room\<close>

lemma host_loop_first:
  "\<forall>q\<in>set pre. p_is_host q \<noteq> Some True \<Longrightarrow> p_is_host p = Some True \<Longrightarrow>
     host_loop (pre @ p # post) = Inr p"
  by (induction pre) (simp_all add: truthy_bool_def)

lemma host_loop_none:
  "\<forall>q\<in>set ps. p_is_host q \<noteq> Some True \<Longrightarrow> host_loop ps = Inl (ValueError ''No host find'')"
  by (induction ps) (simp_all add: truthy_bool_def)

lemma host_loop_cases:
  "host_loop ps = Inl (ValueError ''No host find'')
   \<or> (\<exists>p\<in>set ps. p_is_host p = Some True \<and> host_loop ps = Inr p)"
  by (induction ps) (auto simp add: truthy_bool_def)

text \<open>
  Claim C1. For every room, \<^verbatim>\<open>host\<close> returns the first player whose \<^verbatim>\<open>is_host\<close> flag
  is true when the room has such a player, and raises the ValueError "No host find" when
  it has none. It never returns \<^verbatim>\<open>None\<close>: the result is that error or a player of
  the room.
\<close>

theorem host_first_or_no_host:
  "((\<exists>p\<in>set (players d r). p_is_host p = Some True) \<longrightarrow>
      (\<exists>pre p post. players d r = pre @ p # post \<and> (\<forall>q\<in>set pre. p_is_host q \<noteq> Some True)
         \<and> p_is_host p = Some True \<and> host d r = Inr p))
   \<and> ((\<forall>p\<in>set (players d r). p_is_host p \<noteq> Some True) \<longrightarrow>
         host d r = Inl (ValueError ''No host find''))
   \<and> (host d r = Inl (ValueError ''No host find'')
        \<or> (\<exists>p\<in>set (players d r). p_is_host p = Some True \<and> host d r = Inr p))"
proof (intro conjI impI)
  assume "\<exists>p\<in>set (players d r). p_is_host p = Some True"
  then obtain pre p post where
    split: "players d r = pre @ p # post" and p: "p_is_host p = Some True"
    and pre: "\<forall>q\<in>set pre. p_is_host q \<noteq> Some True"
    using split_list_first_prop [of "players d r" "\<lambda>p. p_is_host p = Some True"] by blast
  from host_loop_first [OF pre p] split have "host d r = Inr p"
    by (simp add: host_def)
  with split p pre
  show "\<exists>pre p post. players d r = pre @ p # post \<and> (\<forall>q\<in>set pre. p_is_host q \<noteq> Some True)
         \<and> p_is_host p = Some True \<and> host d r = Inr p"
    by blast
next
  assume "\<forall>p\<in>set (players d r). p_is_host p \<noteq> Some True"
  then show "host d r = Inl (ValueError ''No host find'')"
    by (simp add: host_def host_loop_none)
next
  show "host d r = Inl (ValueError ''No host find'')
        \<or> (\<exists>p\<in>set (players d r). p_is_host p = Some True \<and> host d r = Inr p)"
    unfolding host_def by (rule host_loop_cases)
qed

theorem host_first_or_no_host_witness:
  "(\<exists>p\<in>set (players ex_db room1). p_is_host p = Some True)
   \<and> host ex_db room1 = Inr ex_host
   \<and> host ex_db room2 = Inl (ValueError ''No host find'')"
  using host_first_or_no_host [of ex_db room1] host_first_or_no_host [of ex_db room2]
  by (simp add: ex_defs players_def host_def truthy_bool_def)

text \<open>
  Claim C2. For every room, evaluating \<^verbatim>\<open>is_full\<close> raises an error, the
  AttributeError of the undefined attribute \<^verbatim>\<open>seats\<close>; there is no room for which it
  returns a boolean.
\<close>

theorem is_full_always_raises:
  "is_full d r = Inl (AttributeError ''seats'') \<and> (\<forall>b. is_full d r \<noteq> Inr b)"
  by (simp add: is_full_def room_attributes_def)

lemma set_available_seats_loop:
  "set (available_seats_loop ps seats)
     = set seats - {s. s \<noteq> 0 \<and> (\<exists>p\<in>set ps. p_seat p = Some s)}"
  by (induction ps arbitrary: seats) (auto split: option.splits)

lemma set_map_filter_seats:
  "set (List.map_filter f xs) = {y. \<exists>x\<in>set xs. f x = Some y}"
  by (induction xs) (auto split: option.splits)

lemma set_occupied_seats:
  "set (occupied_seats d r)
     = {s. s \<noteq> 0 \<and> (\<exists>p\<in>set (normal_players d r). p_seat p = Some s)}"
  by (auto simp add: occupied_seats_def seated_players_def normal_players_def
      set_map_filter_seats truthy_int_def split: option.splits)

lemma range_1_13:
  "[1..12] = [1, 2, 3, 4, 5, 6, 7, 8, 9, 10, 11, 12]"
  by (simp add: upto_rec1)

lemma set_available_seats:
  "set (available_seats d r) = {1..12} - set (occupied_seats d r)"
  by (simp add: available_seats_def set_available_seats_loop set_occupied_seats)

text \<open>
  Claim C3, as amended. For every room, \<^verbatim>\<open>available_seats\<close> is the set 1..12 without
  the seats occupied by the seated normal players, so the two sets are disjoint; their
  union is 1..12 whenever every occupied seat lies in 1..12.
\<close>

theorem available_seats_partition:
  "set (available_seats d r) = {1..12} - set (occupied_seats d r)
   \<and> set (available_seats d r) \<inter> set (occupied_seats d r) = {}
   \<and> (set (occupied_seats d r) \<subseteq> {1..12} \<longrightarrow>
        set (available_seats d r) \<union> set (occupied_seats d r) = {1..12})"
  unfolding set_available_seats by blast

lemma ex_room1_seats:
  "set (occupied_seats ex_db room1) = {1, 3, 5}"
  by (simp add: ex_defs occupied_seats_def seated_players_def players_def
      truthy_bool_def truthy_int_def List.map_filter_simps)

theorem available_seats_partition_witness:
  "set (occupied_seats ex_db room1) \<subseteq> {1..12}
   \<and> set (available_seats ex_db room1) \<union> set (occupied_seats ex_db room1) = {1..12}"
proof -
  have sub: "set (occupied_seats ex_db room1) \<subseteq> {1..12}"
    by (simp add: ex_room1_seats)
  with available_seats_partition [of ex_db room1] show ?thesis
    by blast
qed

text \<open>
  Claim C3 as stated fails where a normal player holds a seat outside 1..12: the seat
  column is an unconstrained integer, and in room 2 the player seated at 13 puts 13 into
  the union.
\<close>

theorem available_seats_union_counterexample:
  "\<not> (set (available_seats ex_db room2) \<inter> set (occupied_seats ex_db room2) = {}
      \<and> set (available_seats ex_db room2) \<union> set (occupied_seats ex_db room2) = {1..12})"
proof -
  have "13 \<in> set (occupied_seats ex_db room2)"
    by (simp add: ex_defs occupied_seats_def seated_players_def players_def
        truthy_bool_def truthy_int_def List.map_filter_simps)
  then show ?thesis by auto
qed

text \<open>
  Claim C8. In the room whose normal players are seated exactly at 1, 3 and 5,
  \<^verbatim>\<open>available_seats\<close> is the set 2, 4, 6, 7, 8, 9, 10, 11, 12. The claim expects
  \<^verbatim>\<open>is_full\<close> to be false there; the code raises AttributeError instead.
\<close>

theorem room_1_3_5_seats_and_is_full:
  "set (occupied_seats ex_db room1) = {1, 3, 5}
   \<and> set (available_seats ex_db room1) = {2, 4, 6, 7, 8, 9, 10, 11, 12}
   \<and> is_full ex_db room1 = Inl (AttributeError ''seats'')
   \<and> is_full ex_db room1 \<noteq> Inr False"
proof -
  have "available_seats ex_db room1 = [2, 4, 6, 7, 8, 9, 10, 11, 12]"
    by (simp add: ex_defs players_def normal_players_def available_seats_def
        truthy_bool_def range_1_13)
  then show ?thesis
    by (simp add: ex_room1_seats is_full_def room_attributes_def)
qed

section \<open>Status of an ended game\<close>

text \<open>
  Claim C9, as amended. For every game on which \<^verbatim>\<open>end()\<close> has been called,
  \<^verbatim>\<open>status\<close> returns -1, the truthy sentinel stored in \<^verbatim>\<open>current_round\<close>, and not
  the placeholder string. For every game, \<^verbatim>\<open>status\<close> returns the placeholder when
  \<^verbatim>\<open>current_round\<close> is unset or falsy, and \<^verbatim>\<open>current_round\<close> itself when it is
  truthy.
\<close>

theorem status_after_end:
  "status (game_end now g) = PyInt (- 1)
   \<and> truthy (PyInt (- 1))
   \<and> status (game_end now g) \<noteq> PyStr status_placeholder
   \<and> (\<not> truthy (g_current_round g') \<longrightarrow> status g' = PyStr status_placeholder)
   \<and> (truthy (g_current_round g') \<longrightarrow> status g' = g_current_round g')"
  by (simp add: status_def game_end_def)

theorem status_after_end_witness:
  "\<not> truthy (g_current_round ex_game)
   \<and> status ex_game = PyStr status_placeholder
   \<and> truthy (g_current_round (game_end 2000 ex_game))
   \<and> status (game_end 2000 ex_game) = PyInt (- 1)"
  using status_after_end [of 2000 ex_game ex_game]
    status_after_end [of 2000 ex_game "game_end 2000 ex_game"]
  by (simp add: ex_defs game_end_def)

text \<open>
  Claim C9 as stated says that the placeholder is returned only when \<^verbatim>\<open>current_round\<close>
  is unset or falsy. A round named with the placeholder's text is truthy, and \<^verbatim>\<open>status\<close>
  returns that text.
\<close>

theorem status_placeholder_counterexample:
  "\<not> (status ex_game_named = PyStr status_placeholder \<longrightarrow>
        \<not> truthy (g_current_round ex_game_named))"
  by (simp add: ex_game_named_def status_def status_placeholder_def)

section \<open>Properties of User\<close>

text \<open>
  Claim C10. For every user with no player record, \<^verbatim>\<open>is_host\<close> raises
  AttributeError (it reads \<^verbatim>\<open>is_host\<close> of the \<^verbatim>\<open>None\<close> that \<^verbatim>\<open>first()\<close> returned)
  and does not return false.
\<close>

theorem user_is_host_no_player:
  "user_role d u = [] \<Longrightarrow>
     user_is_host d u = Inl (AttributeError ''is_host'') \<and> (\<forall>b. user_is_host d u \<noteq> Inr b)"
  by (simp add: user_is_host_def first_row_def)

theorem user_is_host_no_player_witness:
  "user_role ex_db user9 = []
   \<and> user_is_host ex_db user9 = Inl (AttributeError ''is_host'')"
proof -
  have h: "user_role ex_db user9 = []"
    by (simp add: ex_defs user_role_def)
  from user_is_host_no_player [OF h] h show ?thesis by simp
qed

section \<open>Properties of the vote results\<close>

lemma filter_key_unique:
  "distinct (map f xs) \<Longrightarrow> x \<in> set xs \<Longrightarrow> filter (\<lambda>y. f y = f x) xs = [x]"
proof (induction xs)
  case Nil
  then show ?case by simp
next
  case (Cons a xs)
  show ?case
  proof (cases "a = x")
    case True
    with Cons.prems have "f x \<notin> f ` set xs" by simp
    then have "\<forall>y\<in>set xs. f y \<noteq> f x" by (metis imageI)
    then have "filter (\<lambda>y. f y = f x) xs = []" by (simp add: filter_empty_conv)
    with True show ?thesis by simp
  next
    case False
    with Cons.prems have "x \<in> set xs" and "f a \<noteq> f x" and "distinct (map f xs)"
      by auto
    with Cons.IH show ?thesis by simp
  qed
qed

lemma vote_from_own_player:
  assumes "distinct (map p_id (tbl_player d))"
    and "p \<in> set (tbl_player d)"
    and "v_player_id v = Some (p_id p)"
  shows "vote_from d v = Inr (p_seat p)"
proof -
  have "filter (\<lambda>q. p_id q = p_id p) (tbl_player d) = [p]"
    using assms(1,2) by (rule filter_key_unique)
  with assms(3) show ?thesis
    by (simp add: vote_from_def first_row_def)
qed

lemma vote_from_error:
  "vote_from d v = Inl e \<Longrightarrow> e = AttributeError ''seat''"
  by (auto simp add: vote_from_def split: option.splits)

lemma votes_of_round_player:
  "w \<in> set (votes_of_round d p rn) \<Longrightarrow> v_player_id w = Some (p_id p)"
  by (simp add: votes_of_round_def player_votes_def)

lemma view_vote_results_loop_ok:
  assumes "distinct (map p_id (tbl_player d))"
    and "set ps \<subseteq> set (tbl_player d)"
    and "\<forall>p\<in>set ps. votes_of_round d p rn = [w p]"
  shows "view_vote_results_loop d rn ps acc
           = Inr (acc @ map (\<lambda>p. \<lparr>vr_vote_from = p_seat p, vr_vote_for = v_vote_for (w p)\<rparr>) ps)"
  using assms(2,3)
proof (induction ps arbitrary: acc)
  case Nil
  then show ?case by simp
next
  case (Cons p ps)
  from Cons.prems have one: "votes_of_round d p rn = [w p]" and mem: "p \<in> set (tbl_player d)"
    by auto
  from one have "w p \<in> set (votes_of_round d p rn)" by simp
  then have "v_player_id (w p) = Some (p_id p)" by (rule votes_of_round_player)
  with assms(1) mem have from_p: "vote_from d (w p) = Inr (p_seat p)"
    by (rule vote_from_own_player)
  from Cons.prems have "set ps \<subseteq> set (tbl_player d)"
    and "\<forall>q\<in>set ps. votes_of_round d q rn = [w q]" by auto
  from Cons.IH [OF this] one from_p show ?case
    by (simp add: first_row_def)
qed

lemma view_vote_results_loop_missing:
  "\<exists>p\<in>set ps. votes_of_round d p rn = [] \<Longrightarrow>
     \<exists>msg. view_vote_results_loop d rn ps acc = Inl (AttributeError msg)"
proof (induction ps arbitrary: acc)
  case Nil
  then show ?case by simp
next
  case (Cons p ps)
  show ?case
  proof (cases "votes_of_round d p rn")
    case Nil
    then show ?thesis by (simp add: first_row_def)
  next
    case (Cons v vs)
    with Cons.prems have rest: "\<exists>q\<in>set ps. votes_of_round d q rn = []" by auto
    show ?thesis
    proof (cases "vote_from d v")
      case (Inl e)
      with vote_from_error have "e = AttributeError ''seat''" by blast
      with Inl Cons show ?thesis by (simp add: first_row_def)
    next
      case (Inr s)
      with Cons Cons.IH [OF rest] show ?thesis by (simp add: first_row_def)
    qed
  qed
qed

lemma seated_players_in_table:
  "set (seated_players d r) \<subseteq> set (tbl_player d)"
  by (auto simp add: seated_players_def players_def)

text \<open>
  Claim C4. \<^verbatim>\<open>Player.id\<close> is the primary key, so the ids of the player table are
  distinct. For every room and round name, if every seated player has exactly one vote
  \<open>w p\<close> for that round, \<^verbatim>\<open>view_vote_results\<close> returns one pair per seated player, in
  their order, whose \<^verbatim>\<open>vote_from\<close> is the player's seat and whose \<^verbatim>\<open>vote_for\<close> is the
  choice recorded in \<open>w p\<close>; if some seated player has no vote for that round, it
  raises AttributeError, the error of reading an attribute of \<^verbatim>\<open>None\<close>.
\<close>

theorem view_vote_results_pairs:
  assumes "distinct (map p_id (tbl_player d))"
  shows "((\<forall>p\<in>set (seated_players d r). votes_of_round d p rn = [w p]) \<longrightarrow>
            view_vote_results d r rn
              = Inr (map (\<lambda>p. \<lparr>vr_vote_from = p_seat p, vr_vote_for = v_vote_for (w p)\<rparr>)
                      (seated_players d r)))
         \<and> ((\<exists>p\<in>set (seated_players d r). votes_of_round d p rn = []) \<longrightarrow>
              (\<exists>msg. view_vote_results d r rn = Inl (AttributeError msg)))"
proof (intro conjI impI)
  assume "\<forall>p\<in>set (seated_players d r). votes_of_round d p rn = [w p]"
  with view_vote_results_loop_ok [OF assms seated_players_in_table, of r rn w "[]"]
  show "view_vote_results d r rn
          = Inr (map (\<lambda>p. \<lparr>vr_vote_from = p_seat p, vr_vote_for = v_vote_for (w p)\<rparr>)
                  (seated_players d r))"
    by (simp add: view_vote_results_def)
next
  assume "\<exists>p\<in>set (seated_players d r). votes_of_round d p rn = []"
  then show "\<exists>msg. view_vote_results d r rn = Inl (AttributeError msg)"
    unfolding view_vote_results_def by (rule view_vote_results_loop_missing)
qed

lemma ex_seated_room1:
  "seated_players ex_db room1 = [ex_p2, ex_p3, ex_p4]"
  by (simp add: ex_defs seated_players_def players_def truthy_bool_def truthy_int_def)

theorem view_vote_results_pairs_witness:
  "distinct (map p_id (tbl_player ex_db))
   \<and> view_vote_results ex_db room1 ''round1''
       = Inr [\<lparr>vr_vote_from = Some 1, vr_vote_for = Some 3\<rparr>,
              \<lparr>vr_vote_from = Some 3, vr_vote_for = Some 5\<rparr>,
              \<lparr>vr_vote_from = Some 5, vr_vote_for = Some 0\<rparr>]
   \<and> (\<exists>msg. view_vote_results ex_db room1 ''round2'' = Inl (AttributeError msg))"
proof -
  have pk: "distinct (map p_id (tbl_player ex_db))"
    by (simp add: ex_defs)
  have one: "\<forall>p\<in>set (seated_players ex_db room1). votes_of_round ex_db p ''round1'' = [ex_choice p]"
    by (simp add: ex_seated_room1)
      (simp add: ex_defs votes_of_round_def player_votes_def)
  have none: "\<exists>p\<in>set (seated_players ex_db room1). votes_of_round ex_db p ''round2'' = []"
    by (simp add: ex_seated_room1)
      (simp add: ex_defs votes_of_round_def player_votes_def)
  from view_vote_results_pairs [OF pk, of room1 "''round1''" ex_choice] one
  have r1: "view_vote_results ex_db room1 ''round1''
       = Inr [\<lparr>vr_vote_from = Some 1, vr_vote_for = Some 3\<rparr>,
              \<lparr>vr_vote_from = Some 3, vr_vote_for = Some 5\<rparr>,
              \<lparr>vr_vote_from = Some 5, vr_vote_for = Some 0\<rparr>]"
    by (simp add: ex_seated_room1) (simp add: ex_defs)
  from view_vote_results_pairs [OF pk, of room1 "''round2''" ex_choice] none
  have r2: "\<exists>msg. view_vote_results ex_db room1 ''round2'' = Inl (AttributeError msg)"
    by blast
  from pk r1 r2 show ?thesis by simp
qed

end
